theory Spec2Isabelle
  imports Main "HOL-Library.Word"
begin

section \<open>Database operations of \<open>packages/database/src/operation.ts\<close>\<close>

text \<open>
  The module builds operation descriptors (\<open>DBOp\<close>) for a key-value store and mirrors
  writes and deletes into a cache. The model follows the emitted JavaScript: a
  TypeScript non-null assertion \<open>e!\<close> is erased, so an absent value is handed on as
  \<open>undefined\<close> (\<open>None\<close>); reading a property of \<open>undefined\<close> throws a \<open>TypeError\<close>;
  a numeric \<open>enum\<close> is a number at run time.
\<close>

subsection \<open>Data model\<close>

type_synonym Buffer = "8 word list"

text \<open>\<open>enum DBTarget\<close> with its numbering: \<open>Heads\<close> is 0, \<open>Receipts\<close> is set to 100.\<close>

datatype DBTarget =
    Heads | HeadHeader | HeadBlock | HashToNumber | NumberToHash | TotalDifficulty
  | Body | Header | CliqueSignerStates | CliqueVotes | CliqueBlockSigners
  | Receipts | TxLookup | BloomBits | BloomBitsSectionCount | SnapAccount | SnapStorage
  | SnapRoot | SnapJournal | SnapGenerator | SnapRecovery | SnapDisabled | SnapSyncProgress

fun DBTarget_value :: "DBTarget \<Rightarrow> int" where
  "DBTarget_value Heads = 0"
| "DBTarget_value HeadHeader = 1"
| "DBTarget_value HeadBlock = 2"
| "DBTarget_value HashToNumber = 3"
| "DBTarget_value NumberToHash = 4"
| "DBTarget_value TotalDifficulty = 5"
| "DBTarget_value Body = 6"
| "DBTarget_value Header = 7"
| "DBTarget_value CliqueSignerStates = 8"
| "DBTarget_value CliqueVotes = 9"
| "DBTarget_value CliqueBlockSigners = 10"
| "DBTarget_value Receipts = 100"
| "DBTarget_value TxLookup = 101"
| "DBTarget_value BloomBits = 102"
| "DBTarget_value BloomBitsSectionCount = 103"
| "DBTarget_value SnapAccount = 104"
| "DBTarget_value SnapStorage = 105"
| "DBTarget_value SnapRoot = 106"
| "DBTarget_value SnapJournal = 107"
| "DBTarget_value SnapGenerator = 108"
| "DBTarget_value SnapRecovery = 109"
| "DBTarget_value SnapDisabled = 110"
| "DBTarget_value SnapSyncProgress = 111"

definition all_targets :: "DBTarget list" where
  "all_targets =
     [Heads, HeadHeader, HeadBlock, HashToNumber, NumberToHash, TotalDifficulty,
      Body, Header, CliqueSignerStates, CliqueVotes, CliqueBlockSigners,
      Receipts, TxLookup, BloomBits, BloomBitsSectionCount, SnapAccount, SnapStorage,
      SnapRoot, SnapJournal, SnapGenerator, SnapRecovery, SnapDisabled, SnapSyncProgress]"

text \<open>
  The \<open>case\<close> label that a run-time number selects in \<open>switch (operationTarget)\<close>:
  the labels are tried in order with strict equality; \<open>None\<close> when no label matches.
\<close>

definition switch_label :: "int \<Rightarrow> DBTarget option" where
  "switch_label n = find (\<lambda>T. n = DBTarget_value T) all_targets"

text \<open>A key is \<open>Buffer | string\<close>; a value is \<open>string | Buffer | object\<close>.\<close>

datatype dbkey = KeyBuffer Buffer | KeyString string

datatype dbvalue = BufferValue Buffer | StringValue string | ObjectValue "(string \<times> string) list"

fun isBuffer :: "dbvalue option \<Rightarrow> bool" where
  "isBuffer (Some (BufferValue b)) = True"
| "isBuffer v = False"

datatype error = TypeError | Error string

text \<open>\<open>interface DBOpData\<close>; an optional field is an \<open>option\<close>.\<close>

record DBOpData =
  type :: "string option"
  key :: dbkey
  keyEncoding :: string
  valueEncoding :: "string option"
  "value" :: "dbvalue option"

text \<open>
  \<open>type DatabaseKey\<close>: every field optional. \<open>BN\<close> is an unbounded integer; the bit
  index is a \<open>number\<close>, taken as an integer here. (\<open>bit\<close> is a constant of HOL, hence
  the suffix.)
\<close>

record DatabaseKey =
  blockNumber :: "int option"
  blockHash :: "Buffer option"
  txHash :: "Buffer option"
  bit_d :: "int option"
  "section" :: "int option"
  hash :: "Buffer option"
  accountHash :: "Buffer option"
  storageHash :: "Buffer option"

definition no_fields :: DatabaseKey where
  "no_fields = \<lparr>blockNumber = None, blockHash = None, txHash = None, bit_d = None,
     section = None, hash = None, accountHash = None, storageHash = None\<rparr>"

text \<open>The fields of class \<open>DBOp\<close>.\<close>

record DBOp =
  operationTarget :: int
  baseDBOp :: DBOpData
  cacheString :: "string option"

text \<open>
  What the module imports from \<open>./constants\<close>, which is outside the verified source file:
  thirteen constant keys and ten key functions. They are parameters of the model. A key
  function receives what the call site passes, which after erasure of \<open>!\<close> may be
  \<open>undefined\<close>, and either returns a key or throws.
\<close>

record constants =
  HEADS_KEY :: dbkey
  HEAD_HEADER_KEY :: dbkey
  HEAD_BLOCK_KEY :: dbkey
  BLOOM_BITS_SECTION_COUNT :: dbkey
  tdKey :: "int option \<Rightarrow> Buffer option \<Rightarrow> error + dbkey"
  headerKey :: "int option \<Rightarrow> Buffer option \<Rightarrow> error + dbkey"
  bodyKey :: "int option \<Rightarrow> Buffer option \<Rightarrow> error + dbkey"
  numberToHashKey :: "int option \<Rightarrow> error + dbkey"
  hashToNumberKey :: "Buffer option \<Rightarrow> error + dbkey"
  CLIQUE_SIGNERS_KEY :: dbkey
  CLIQUE_VOTES_KEY :: dbkey
  CLIQUE_BLOCK_SIGNERS_KEY :: dbkey
  receiptsKey :: "int option \<Rightarrow> Buffer option \<Rightarrow> error + dbkey"
  txLookupKey :: "Buffer option \<Rightarrow> error + dbkey"
  bloomBitsKey :: "int option \<Rightarrow> int option \<Rightarrow> Buffer option \<Rightarrow> error + dbkey"
  snapAccountKey :: "Buffer option \<Rightarrow> error + dbkey"
  snapStorageKey :: "Buffer option \<Rightarrow> Buffer option \<Rightarrow> error + dbkey"
  SNAP_ROOT_KEY :: dbkey
  SNAP_JOURNAL_KEY :: dbkey
  SNAP_GENERATOR_KEY :: dbkey
  SNAP_RECOVERY_KEY :: dbkey
  SNAP_DISABLED_KEY :: dbkey
  SNAP_SYNC_PROGRESS_KEY :: dbkey

subsection \<open>The constructor\<close>

text \<open>Sequencing of steps that may throw.\<close>

definition and_then :: "error + 'a \<Rightarrow> ('a \<Rightarrow> error + 'b) \<Rightarrow> error + 'b" where
  "and_then r f = (case r of Inl e \<Rightarrow> Inl e | Inr x \<Rightarrow> f x)"

text \<open>
  \<open>key!.f!\<close>: a \<open>TypeError\<close> when \<open>key\<close> is \<open>undefined\<close>, else the field, present or not.
\<close>

definition field_of :: "DatabaseKey option \<Rightarrow> (DatabaseKey \<Rightarrow> 'a option) \<Rightarrow> error + 'a option" where
  "field_of k f = (case k of None \<Rightarrow> Inl TypeError | Some d \<Rightarrow> Inr (f d))"

text \<open>The assignments \<open>this.baseDBOp.key = k\<close> and \<open>this.cacheString = s\<close>.\<close>

definition assign_key :: "DBOp \<Rightarrow> dbkey \<Rightarrow> DBOp" where
  "assign_key this k = this\<lparr>baseDBOp := (baseDBOp this)\<lparr>key := k\<rparr>\<rparr>"

definition assign_cached_key :: "DBOp \<Rightarrow> string \<Rightarrow> dbkey \<Rightarrow> DBOp" where
  "assign_cached_key this s k = (assign_key this k)\<lparr>cacheString := Some s\<rparr>"

text \<open>The object before the \<open>switch\<close>: lines 90 to 96.\<close>

definition DBOp_fresh :: "int \<Rightarrow> DBOp" where
  "DBOp_fresh t =
     \<lparr>operationTarget = t,
      baseDBOp = \<lparr>type = None, key = KeyString [], keyEncoding = ''binary'',
                  valueEncoding = Some ''binary'', value = None\<rparr>,
      cacheString = None\<rparr>"

text \<open>One equation for each \<open>case\<close> of the \<open>switch\<close>, in the order of the source.\<close>

fun switch_case :: "constants \<Rightarrow> DBTarget \<Rightarrow> DatabaseKey option \<Rightarrow> DBOp \<Rightarrow> error + DBOp" where
  "switch_case c Heads k this =
     Inr (this\<lparr>baseDBOp := (baseDBOp this)\<lparr>key := HEADS_KEY c, valueEncoding := Some ''json''\<rparr>\<rparr>)"
| "switch_case c HeadHeader k this = Inr (assign_key this (HEAD_HEADER_KEY c))"
| "switch_case c HeadBlock k this = Inr (assign_key this (HEAD_BLOCK_KEY c))"
| "switch_case c HashToNumber k this =
     and_then (field_of k blockHash) (\<lambda>h.
     and_then (hashToNumberKey c h) (\<lambda>b. Inr (assign_cached_key this ''hashToNumber'' b)))"
| "switch_case c NumberToHash k this =
     and_then (field_of k blockNumber) (\<lambda>n.
     and_then (numberToHashKey c n) (\<lambda>b. Inr (assign_cached_key this ''numberToHash'' b)))"
| "switch_case c TotalDifficulty k this =
     and_then (field_of k blockNumber) (\<lambda>n. and_then (field_of k blockHash) (\<lambda>h.
     and_then (tdKey c n h) (\<lambda>b. Inr (assign_cached_key this ''td'' b))))"
| "switch_case c Body k this =
     and_then (field_of k blockNumber) (\<lambda>n. and_then (field_of k blockHash) (\<lambda>h.
     and_then (bodyKey c n h) (\<lambda>b. Inr (assign_cached_key this ''body'' b))))"
| "switch_case c Header k this =
     and_then (field_of k blockNumber) (\<lambda>n. and_then (field_of k blockHash) (\<lambda>h.
     and_then (headerKey c n h) (\<lambda>b. Inr (assign_cached_key this ''header'' b))))"
| "switch_case c CliqueSignerStates k this = Inr (assign_key this (CLIQUE_SIGNERS_KEY c))"
| "switch_case c CliqueVotes k this = Inr (assign_key this (CLIQUE_VOTES_KEY c))"
| "switch_case c CliqueBlockSigners k this = Inr (assign_key this (CLIQUE_BLOCK_SIGNERS_KEY c))"
| "switch_case c Receipts k this =
     and_then (field_of k blockNumber) (\<lambda>n. and_then (field_of k blockHash) (\<lambda>h.
     and_then (receiptsKey c n h) (\<lambda>b. Inr (assign_cached_key this ''receipts'' b))))"
| "switch_case c TxLookup k this =
     and_then (field_of k txHash) (\<lambda>h.
     and_then (txLookupKey c h) (\<lambda>b. Inr (assign_cached_key this ''txLookup'' b)))"
| "switch_case c BloomBits k this =
     and_then (field_of k bit_d) (\<lambda>i. and_then (field_of k section) (\<lambda>s.
     and_then (field_of k hash) (\<lambda>h.
     and_then (bloomBitsKey c i s h) (\<lambda>b. Inr (assign_key this b)))))"
| "switch_case c BloomBitsSectionCount k this =
     Inr (this\<lparr>baseDBOp := (baseDBOp this)\<lparr>key := BLOOM_BITS_SECTION_COUNT c,
            keyEncoding := ''none'', valueEncoding := Some ''none''\<rparr>\<rparr>)"
| "switch_case c SnapAccount k this =
     and_then (field_of k accountHash) (\<lambda>a.
     and_then (snapAccountKey c a) (\<lambda>b. Inr (assign_cached_key this ''snapAccount'' b)))"
| "switch_case c SnapStorage k this =
     and_then (field_of k accountHash) (\<lambda>a. and_then (field_of k storageHash) (\<lambda>s.
     and_then (snapStorageKey c a s) (\<lambda>b. Inr (assign_cached_key this ''snapStorage'' b))))"
| "switch_case c SnapRoot k this = Inr (assign_key this (SNAP_ROOT_KEY c))"
| "switch_case c SnapJournal k this = Inr (assign_key this (SNAP_JOURNAL_KEY c))"
| "switch_case c SnapGenerator k this = Inr (assign_key this (SNAP_GENERATOR_KEY c))"
| "switch_case c SnapRecovery k this = Inr (assign_key this (SNAP_RECOVERY_KEY c))"
| "switch_case c SnapDisabled k this = Inr (assign_key this (SNAP_DISABLED_KEY c))"
| "switch_case c SnapSyncProgress k this = Inr (assign_key this (SNAP_SYNC_PROGRESS_KEY c))"

text \<open>
  \<open>new DBOp(operationTarget, key)\<close>, with \<open>target\<close> for the first parameter.
  The \<open>switch\<close> has no \<open>default\<close>: a number that matches no label leaves the fresh
  object as it is.
\<close>

definition DBOp_new :: "constants \<Rightarrow> int \<Rightarrow> DatabaseKey option \<Rightarrow> error + DBOp" where
  "DBOp_new c target k =
     (case switch_label target of
        None \<Rightarrow> Inr (DBOp_fresh target)
      | Some T \<Rightarrow> switch_case c T k (DBOp_fresh target))"

subsection \<open>The entry points\<close>

definition DBOp_get :: "constants \<Rightarrow> int \<Rightarrow> DatabaseKey option \<Rightarrow> error + DBOp" where
  "DBOp_get c target k = DBOp_new c target k"

text \<open>
  \<open>compressBytes\<close> of \<open>./compress\<close> is a parameter too; the cast \<open>value as Buffer\<close> is
  erased, so it receives the value whatever it is, and it may throw.
\<close>

definition DBOp_set ::
  "constants \<Rightarrow> (dbvalue \<Rightarrow> error + dbvalue) \<Rightarrow> int \<Rightarrow> dbvalue \<Rightarrow> DatabaseKey option \<Rightarrow> error + DBOp"
where
  "DBOp_set c compressBytes target v k =
     and_then (DBOp_new c target k) (\<lambda>dbOperation.
       let put = dbOperation\<lparr>baseDBOp := (baseDBOp dbOperation)\<lparr>type := Some ''put''\<rparr>\<rparr> in
       if target = DBTarget_value BloomBits
       then and_then (compressBytes v) (\<lambda>w.
              Inr (put\<lparr>baseDBOp := (baseDBOp put)\<lparr>value := Some w\<rparr>\<rparr>))
       else Inr (put\<lparr>baseDBOp := (baseDBOp put)\<lparr>value := Some v\<rparr>\<rparr>))"

definition DBOp_del :: "constants \<Rightarrow> int \<Rightarrow> DatabaseKey option \<Rightarrow> error + DBOp" where
  "DBOp_del c target k =
     and_then (DBOp_new c target k) (\<lambda>dbOperation.
       Inr (dbOperation\<lparr>baseDBOp := (baseDBOp dbOperation)\<lparr>type := Some ''del''\<rparr>\<rparr>))"

subsection \<open>The cache\<close>

text \<open>
  Modelled from the spec: \<open>CacheMap\<close> of \<open>./manager\<close> is outside the verified source
  file. The cache container is a mapping from bucket name to a key-to-bytes cache with
  \<open>get\<close>, \<open>set\<close> and \<open>del\<close> by key; a bucket name with no cache is valid.
\<close>

type_synonym Cache = "dbkey \<rightharpoonup> Buffer"

type_synonym CacheMap = "string \<rightharpoonup> Cache"


definition Cache_set :: "Cache \<Rightarrow> dbkey \<Rightarrow> Buffer \<Rightarrow> Cache" where
  "Cache_set cache k v = cache(k \<mapsto> v)"

definition Cache_del :: "Cache \<Rightarrow> dbkey \<Rightarrow> Cache" where
  "Cache_del cache k = cache(k := None)"

text \<open>
  \<open>updateCache\<close> returns how the call ends (\<open>Inl\<close> for a throw) and the cache container
  after it. The guard \<open>this.cacheString && cacheMap[this.cacheString]\<close> is false for an
  absent or empty name and for a name with no cache.
\<close>

definition updateCache :: "DBOp \<Rightarrow> CacheMap \<Rightarrow> (error + unit) \<times> CacheMap" where
  "updateCache this cacheMap =
     (case cacheString this of
        None \<Rightarrow> (Inr (), cacheMap)
      | Some name \<Rightarrow>
          if name = [] then (Inr (), cacheMap)
          else (case cacheMap name of
             None \<Rightarrow> (Inr (), cacheMap)
           | Some cache \<Rightarrow>
               if type (baseDBOp this) = Some ''put'' then
                 (case value (baseDBOp this) of
                    Some (BufferValue b) \<Rightarrow>
                      (Inr (), cacheMap(name \<mapsto> Cache_set cache (key (baseDBOp this)) b))
                  | _ \<Rightarrow> (Inr (), cacheMap))
               else if type (baseDBOp this) = Some ''del'' then
                 (Inr (), cacheMap(name \<mapsto> Cache_del cache (key (baseDBOp this))))
               else (Inl (Error ''unsupported db operation on cache''), cacheMap)))"

subsection \<open>Discriminators a target needs\<close>

text \<open>
  The fields of the bundle that each \<open>case\<close> of the \<open>switch\<close> reads (none for a
  target with a constant key), and the constant that a fixed-key target is assigned.
\<close>

datatype field = BlockNumber | BlockHash | TxHash | Bit | Section | Hash | AccountHash | StorageHash

fun present :: "field \<Rightarrow> DatabaseKey \<Rightarrow> bool" where
  "present BlockNumber d = (blockNumber d \<noteq> None)"
| "present BlockHash d = (blockHash d \<noteq> None)"
| "present TxHash d = (txHash d \<noteq> None)"
| "present Bit d = (bit_d d \<noteq> None)"
| "present Section d = (section d \<noteq> None)"
| "present Hash d = (hash d \<noteq> None)"
| "present AccountHash d = (accountHash d \<noteq> None)"
| "present StorageHash d = (storageHash d \<noteq> None)"

fun reads :: "DBTarget \<Rightarrow> field list" where
  "reads HashToNumber = [BlockHash]"
| "reads NumberToHash = [BlockNumber]"
| "reads TotalDifficulty = [BlockNumber, BlockHash]"
| "reads Body = [BlockNumber, BlockHash]"
| "reads Header = [BlockNumber, BlockHash]"
| "reads Receipts = [BlockNumber, BlockHash]"
| "reads TxLookup = [TxHash]"
| "reads BloomBits = [Bit, Section, Hash]"
| "reads SnapAccount = [AccountHash]"
| "reads SnapStorage = [AccountHash, StorageHash]"
| "reads T = []"

definition satisfies :: "DBTarget \<Rightarrow> DatabaseKey \<Rightarrow> bool" where
  "satisfies T d = list_all (\<lambda>f. present f d) (reads T)"

definition derived_targets :: "DBTarget list" where
  "derived_targets = [HashToNumber, NumberToHash, TotalDifficulty, Body, Header, Receipts,
     TxLookup, BloomBits, SnapAccount, SnapStorage]"

definition fixed_targets :: "DBTarget list" where
  "fixed_targets = [Heads, HeadHeader, HeadBlock, CliqueSignerStates, CliqueVotes,
     CliqueBlockSigners, BloomBitsSectionCount, SnapRoot, SnapJournal, SnapGenerator,
     SnapRecovery, SnapDisabled, SnapSyncProgress]"

fun fixed_key :: "constants \<Rightarrow> DBTarget \<Rightarrow> dbkey" where
  "fixed_key c Heads = HEADS_KEY c"
| "fixed_key c HeadHeader = HEAD_HEADER_KEY c"
| "fixed_key c HeadBlock = HEAD_BLOCK_KEY c"
| "fixed_key c CliqueSignerStates = CLIQUE_SIGNERS_KEY c"
| "fixed_key c CliqueVotes = CLIQUE_VOTES_KEY c"
| "fixed_key c CliqueBlockSigners = CLIQUE_BLOCK_SIGNERS_KEY c"
| "fixed_key c BloomBitsSectionCount = BLOOM_BITS_SECTION_COUNT c"
| "fixed_key c SnapRoot = SNAP_ROOT_KEY c"
| "fixed_key c SnapJournal = SNAP_JOURNAL_KEY c"
| "fixed_key c SnapGenerator = SNAP_GENERATOR_KEY c"
| "fixed_key c SnapRecovery = SNAP_RECOVERY_KEY c"
| "fixed_key c SnapDisabled = SNAP_DISABLED_KEY c"
| "fixed_key c SnapSyncProgress = SNAP_SYNC_PROGRESS_KEY c"
| "fixed_key c T = KeyString []"



text \<open>
  The key function that the \<open>case\<close> of target \<open>T\<close> calls throws whenever its argument for
  field \<open>f\<close> is absent, whatever its other arguments are. The constructor does not check
  this itself; it is a property that a key function of \<open>./constants\<close> may or may not have,
  one target and one field at a time.
\<close>

fun rejects_missing :: "constants \<Rightarrow> DBTarget \<Rightarrow> field \<Rightarrow> bool" where
  "rejects_missing c HashToNumber f = (f = BlockHash \<and> isl (hashToNumberKey c None))"
| "rejects_missing c NumberToHash f = (f = BlockNumber \<and> isl (numberToHashKey c None))"
| "rejects_missing c TotalDifficulty f =
     (f = BlockNumber \<and> (\<forall>h. isl (tdKey c None h))
    \<or> f = BlockHash \<and> (\<forall>n. isl (tdKey c n None)))"
| "rejects_missing c Body f =
     (f = BlockNumber \<and> (\<forall>h. isl (bodyKey c None h))
    \<or> f = BlockHash \<and> (\<forall>n. isl (bodyKey c n None)))"
| "rejects_missing c Header f =
     (f = BlockNumber \<and> (\<forall>h. isl (headerKey c None h))
    \<or> f = BlockHash \<and> (\<forall>n. isl (headerKey c n None)))"
| "rejects_missing c Receipts f =
     (f = BlockNumber \<and> (\<forall>h. isl (receiptsKey c None h))
    \<or> f = BlockHash \<and> (\<forall>n. isl (receiptsKey c n None)))"
| "rejects_missing c TxLookup f = (f = TxHash \<and> isl (txLookupKey c None))"
| "rejects_missing c BloomBits f =
     (f = Bit \<and> (\<forall>s h. isl (bloomBitsKey c None s h))
    \<or> f = Section \<and> (\<forall>i h. isl (bloomBitsKey c i None h))
    \<or> f = Hash \<and> (\<forall>i s. isl (bloomBitsKey c i s None)))"
| "rejects_missing c SnapAccount f = (f = AccountHash \<and> isl (snapAccountKey c None))"
| "rejects_missing c SnapStorage f =
     (f = AccountHash \<and> (\<forall>s. isl (snapStorageKey c None s))
    \<or> f = StorageHash \<and> (\<forall>a. isl (snapStorageKey c a None)))"
| "rejects_missing c T f = False"

subsection \<open>Sample instances of the imported parts\<close>

text \<open>
  Modelled from the spec: the key functions and constant keys of \<open>./constants\<close> are
  outside the verified source file. The theorems hold for any of them; the samples below
  serve to run the model on concrete inputs. They follow the shapes the registry
  describes: a prefix followed by the encodings of the discriminators, the block number as
  eight big-endian bytes. An absent argument is rejected with a \<open>TypeError\<close>.
\<close>

definition bufBE8 :: "int \<Rightarrow> Buffer" where
  "bufBE8 n = map (\<lambda>i::nat. word_of_int (n div 256 ^ i)) [7, 6, 5, 4, 3, 2, 1, 0]"

fun hash_key :: "Buffer \<Rightarrow> Buffer option \<Rightarrow> error + dbkey" where
  "hash_key p (Some h) = Inr (KeyBuffer (p @ h))"
| "hash_key p None = Inl TypeError"

fun number_key :: "Buffer \<Rightarrow> Buffer \<Rightarrow> int option \<Rightarrow> error + dbkey" where
  "number_key p s (Some n) = Inr (KeyBuffer (p @ bufBE8 n @ s))"
| "number_key p s None = Inl TypeError"

fun number_hash_key :: "Buffer \<Rightarrow> Buffer \<Rightarrow> int option \<Rightarrow> Buffer option \<Rightarrow> error + dbkey" where
  "number_hash_key p s (Some n) (Some h) = Inr (KeyBuffer (p @ bufBE8 n @ h @ s))"
| "number_hash_key p s n h = Inl TypeError"

fun hash_hash_key :: "Buffer \<Rightarrow> Buffer option \<Rightarrow> Buffer option \<Rightarrow> error + dbkey" where
  "hash_hash_key p (Some a) (Some h) = Inr (KeyBuffer (p @ a @ h))"
| "hash_hash_key p a h = Inl TypeError"

definition int16BE :: "int \<Rightarrow> Buffer" where
  "int16BE n = [word_of_int (n div 256), word_of_int n]"

fun bloom_key :: "Buffer \<Rightarrow> int option \<Rightarrow> int option \<Rightarrow> Buffer option \<Rightarrow> error + dbkey" where
  "bloom_key p (Some i) (Some s) (Some h) = Inr (KeyBuffer (p @ int16BE i @ bufBE8 s @ h))"
| "bloom_key p i s h = Inl TypeError"

definition sample_constants :: constants where
  "sample_constants =
     \<lparr>HEADS_KEY = KeyString ''heads'',
      HEAD_HEADER_KEY = KeyString ''LastHeader'',
      HEAD_BLOCK_KEY = KeyString ''LastBlock'',
      BLOOM_BITS_SECTION_COUNT = KeyString ''scount'',
      tdKey = number_hash_key [0x68] [0x74],
      headerKey = number_hash_key [0x68] [],
      bodyKey = number_hash_key [0x62] [],
      numberToHashKey = number_key [0x68] [0x6E],
      hashToNumberKey = hash_key [0x48],
      CLIQUE_SIGNERS_KEY = KeyString ''CliqueSigners'',
      CLIQUE_VOTES_KEY = KeyString ''CliqueVotes'',
      CLIQUE_BLOCK_SIGNERS_KEY = KeyString ''CliqueBlockSigners'',
      receiptsKey = number_hash_key [0x72] [],
      txLookupKey = hash_key [0x6C],
      bloomBitsKey = bloom_key [0x42],
      snapAccountKey = hash_key [0x61],
      snapStorageKey = hash_hash_key [0x6F],
      SNAP_ROOT_KEY = KeyString ''SnapshotRoot'',
      SNAP_JOURNAL_KEY = KeyString ''SnapshotJournal'',
      SNAP_GENERATOR_KEY = KeyString ''SnapshotGenerator'',
      SNAP_RECOVERY_KEY = KeyString ''SnapshotRecovery'',
      SNAP_DISABLED_KEY = KeyString ''SnapshotDisabled'',
      SNAP_SYNC_PROGRESS_KEY = KeyString ''SnapshotSyncStatus''\<rparr>"

text \<open>
  A variant whose \<open>bloomBitsKey\<close> does not check the bit index: an absent index is
  written as 0, the way a numeric buffer write coerces \<open>undefined\<close>. Nothing in
  \<open>operation.ts\<close> excludes such a key function.
\<close>

fun unchecked_bloom_key ::
  "Buffer \<Rightarrow> int option \<Rightarrow> int option \<Rightarrow> Buffer option \<Rightarrow> error + dbkey"
where
  "unchecked_bloom_key p i (Some s) (Some h) =
     Inr (KeyBuffer (p @ int16BE (case i of None \<Rightarrow> 0 | Some n \<Rightarrow> n) @ bufBE8 s @ h))"
| "unchecked_bloom_key p i s h = Inl TypeError"

definition unchecked_constants :: constants where
  "unchecked_constants = sample_constants\<lparr>bloomBitsKey := unchecked_bloom_key [0x42]\<rparr>"

text \<open>
  Modelled from the spec: \<open>compressBytes\<close> of \<open>./compress\<close> is outside the verified source
  file; the spec gives it as a pure function from bytes to bytes. This sample drops the
  trailing zero bytes of a buffer and rejects anything that is not a buffer.
\<close>

fun sample_compress :: "dbvalue \<Rightarrow> error + dbvalue" where
  "sample_compress (BufferValue b) = Inr (BufferValue (rev (dropWhile (\<lambda>x. x = 0) (rev b))))"
| "sample_compress v = Inl TypeError"

text \<open>
  A bundle with block number 42 and a two-byte block hash, and a cache container with two
  of the buckets configured.
\<close>

definition sample_key :: DatabaseKey where
  "sample_key = no_fields\<lparr>blockNumber := Some 42, blockHash := Some [0xAB, 0xCD]\<rparr>"

definition sample_cache :: CacheMap where
  "sample_cache = [''header'' \<mapsto> [KeyBuffer [1] \<mapsto> [2]], ''numberToHash'' \<mapsto> Map.empty]"

section \<open>Properties\<close>

subsection \<open>Auxiliary facts\<close>

lemma switch_label_value: "switch_label (DBTarget_value T) = Some T"
  by (cases T) (simp_all add: switch_label_def all_targets_def)

lemma switch_label_None: "(\<forall>T. t \<noteq> DBTarget_value T) \<Longrightarrow> switch_label t = None"
  unfolding switch_label_def find_None_iff by blast

lemma switch_label_Some:
  assumes "switch_label t = Some T"
  shows "t = DBTarget_value T"
proof -
  from assms obtain i where "t = DBTarget_value (all_targets ! i)" and "T = all_targets ! i"
    unfolding switch_label_def find_Some_iff by blast
  then show ?thesis by simp
qed

lemma DBOp_new_value:
  "DBOp_new c (DBTarget_value T) k = switch_case c T k (DBOp_fresh (DBTarget_value T))"
  by (simp add: DBOp_new_def switch_label_value)

lemma DBOp_new_cases:
  assumes "DBOp_new c t k = Inr op"
  obtains "switch_label t = None" and "op = DBOp_fresh t"
  | T where "t = DBTarget_value T" and "switch_case c T k (DBOp_fresh t) = Inr op"
proof (cases "switch_label t")
  case None
  with assms that(1) show ?thesis by (simp add: DBOp_new_def)
next
  case (Some T)
  with assms that(2) [of T] switch_label_Some [OF Some] show ?thesis
    by (simp add: DBOp_new_def)
qed

lemma and_then_Inr: "and_then r f = Inr y \<longleftrightarrow> (\<exists>x. r = Inr x \<and> f x = Inr y)"
  by (cases r) (simp_all add: and_then_def)

lemma and_then_Inl: "and_then (Inl e) f = Inl e"
  by (simp add: and_then_def)

lemma and_then_Inr_apply: "and_then (Inr x) f = f x"
  by (simp add: and_then_def)

lemma field_of_Inr: "field_of k f = Inr x \<longleftrightarrow> (\<exists>d. k = Some d \<and> x = f d)"
  by (cases k) (auto simp: field_of_def)

lemma field_of_None: "field_of None f = Inl TypeError"
  by (simp add: field_of_def)

lemma field_of_Some: "field_of (Some d) f = Inr (f d)"
  by (simp add: field_of_def)

text \<open>What the \<open>switch\<close> leaves alone, and what it sets, for each label.\<close>

lemma switch_case_frame:
  assumes "switch_case c T k (DBOp_fresh t) = Inr op"
  shows "operationTarget op = t" and "type (baseDBOp op) = None" and "value (baseDBOp op) = None"
  using assms
  by (cases T; clarsimp simp: and_then_Inr field_of_Inr assign_key_def assign_cached_key_def
        DBOp_fresh_def)+

lemma switch_case_encodings:
  assumes "switch_case c T k (DBOp_fresh t) = Inr op"
  shows "keyEncoding (baseDBOp op) = (if T = BloomBitsSectionCount then ''none'' else ''binary'')"
    and "valueEncoding (baseDBOp op) =
           Some (if T = Heads then ''json'' else if T = BloomBitsSectionCount then ''none''
                 else ''binary'')"
  using assms
  by (cases T; clarsimp simp: and_then_Inr field_of_Inr assign_key_def assign_cached_key_def
        DBOp_fresh_def)+


lemma DBOp_get_Inr: "DBOp_get c t k = Inr op \<longleftrightarrow> DBOp_new c t k = Inr op"
  by (simp add: DBOp_get_def)

lemma DBOp_del_Inr:
  "DBOp_del c t k = Inr op \<longleftrightarrow>
     (\<exists>n. DBOp_new c t k = Inr n \<and> op = n\<lparr>baseDBOp := (baseDBOp n)\<lparr>type := Some ''del''\<rparr>\<rparr>)"
  by (auto simp: DBOp_del_def and_then_Inr)

lemma DBOp_set_Inr:
  "DBOp_set c cmp t v k = Inr op \<longleftrightarrow>
     (\<exists>n w. DBOp_new c t k = Inr n
        \<and> (if t = DBTarget_value BloomBits then cmp v = Inr w else w = v)
        \<and> op = n\<lparr>baseDBOp := (baseDBOp n)\<lparr>type := Some ''put'', value := Some w\<rparr>\<rparr>)"
proof (cases "t = DBTarget_value BloomBits")
  case True
  then show ?thesis
    by (auto simp: DBOp_set_def and_then_Inr Let_def)
next
  case False
  then show ?thesis
    by (auto simp: DBOp_set_def and_then_Inr Let_def)
qed

text \<open>Unfolding the model on concrete inputs.\<close>

lemmas run_simps =
  DBOp_get_def DBOp_set_def DBOp_del_def DBOp_new_def switch_label_def all_targets_def
  and_then_def field_of_def Let_def DBOp_fresh_def assign_key_def assign_cached_key_def
  no_fields_def

lemma DBTarget_value_range: "DBTarget_value T \<le> 10 \<or> 100 \<le> DBTarget_value T"
  by (cases T) simp_all



lemma DBOp_new_frame:
  assumes "DBOp_new c t k = Inr n"
  shows "type (baseDBOp n) = None" and "value (baseDBOp n) = None" and "operationTarget n = t"
  using assms
  by (cases rule: DBOp_new_cases; simp add: switch_case_frame DBOp_fresh_def)+

lemma DBOp_built_cacheString:
  assumes "DBOp_get c t k = Inr op \<or> DBOp_set c cmp t v k = Inr op \<or> DBOp_del c t k = Inr op"
  obtains n where "DBOp_new c t k = Inr n" and "cacheString op = cacheString n"
    and "key (baseDBOp op) = key (baseDBOp n)"
  using assms by (auto simp: DBOp_get_Inr DBOp_set_Inr DBOp_del_Inr)

lemma DBOp_new_no_bucket:
  assumes "DBOp_new c (DBTarget_value T) k = Inr n" and "T = BloomBits \<or> T \<in> set fixed_targets"
  shows "cacheString n = None"
  using assms unfolding DBOp_new_value fixed_targets_def
  by (auto simp: and_then_Inr field_of_Inr assign_key_def DBOp_fresh_def)

lemma entry_points_Inl:
  assumes "DBOp_new c t k = Inl e"
  shows "DBOp_get c t k = Inl e" and "DBOp_set c compressBytes t v k = Inl e"
    and "DBOp_del c t k = Inl e"
  by (simp_all add: DBOp_get_def DBOp_set_def DBOp_del_def assms and_then_Inl)

lemma and_then_isl: "isl r \<Longrightarrow> isl (and_then r f)"
  by (cases r) (simp_all add: and_then_def)

lemma DBOp_new_no_bundle:
  assumes "T \<in> set derived_targets"
  shows "DBOp_new c (DBTarget_value T) None = Inl TypeError"
  using assms unfolding DBOp_new_value derived_targets_def
  by (auto simp: field_of_None and_then_Inl)

lemma DBOp_new_missing_field:
  assumes "T \<in> set derived_targets" and "f \<in> set (reads T)" and "\<not> present f d"
    and "rejects_missing c T f"
  shows "isl (DBOp_new c (DBTarget_value T) (Some d))"
  using assms unfolding DBOp_new_value derived_targets_def
  by (auto simp: field_of_Some and_then_Inr_apply intro!: and_then_isl)


lemma sample_rejects_missing:
  assumes "T \<in> set derived_targets" and "f \<in> set (reads T)"
  shows "rejects_missing sample_constants T f"
  using assms unfolding derived_targets_def sample_constants_def
  by (auto split: option.splits elim!: number_hash_key.elims hash_hash_key.elims bloom_key.elims)

lemma unchecked_rejects_missing:
  assumes "T \<in> set derived_targets" and "f \<in> set (reads T)"
  shows "rejects_missing unchecked_constants T f \<longleftrightarrow> \<not> (T = BloomBits \<and> f = Bit)"
proof -
  have "\<not> isl (unchecked_bloom_key [0x42] None (Some 7) (Some []))" by simp
  then have "\<not> (\<forall>s h. isl (unchecked_bloom_key [0x42] None s h))" by blast
  then show ?thesis
    using assms unfolding derived_targets_def unchecked_constants_def sample_constants_def
    by (auto split: option.splits
          elim!: number_hash_key.elims hash_hash_key.elims unchecked_bloom_key.elims)
qed

subsection \<open>Constructing descriptors\<close>

text \<open>
  C1, as stated, does not hold of the constructor: it reads the fields with the non-null
  assertion \<open>!\<close>, which checks nothing at run time, and hands an absent field to the key
  function. With a \<open>bloomBitsKey\<close> that does not check its bit index, a bundle without
  \<open>bit\<close> yields a descriptor, and its key is the one for bit index 0.
\<close>

theorem missing_bit_yields_descriptor:
  "\<not> satisfies BloomBits (no_fields\<lparr>section := Some 7, hash := Some [0xAB]\<rparr>)
   \<and> DBOp_get unchecked_constants (DBTarget_value BloomBits)
        (Some (no_fields\<lparr>section := Some 7, hash := Some [0xAB]\<rparr>))
     = Inr \<lparr>operationTarget = 102,
         baseDBOp = \<lparr>type = None,
           key = KeyBuffer [0x42, 0, 0, 0, 0, 0, 0, 0, 0, 0, 7, 0xAB],
           keyEncoding = ''binary'', valueEncoding = Some ''binary'', value = None\<rparr>,
         cacheString = None\<rparr>
   \<and> DBOp_get unchecked_constants (DBTarget_value BloomBits)
        (Some (no_fields\<lparr>section := Some 7, hash := Some [0xAB]\<rparr>))
     = DBOp_get unchecked_constants (DBTarget_value BloomBits)
        (Some (no_fields\<lparr>bit_d := Some 0, section := Some 7, hash := Some [0xAB]\<rparr>))"
  by (simp add: run_simps unchecked_constants_def sample_constants_def bufBE8_def int16BE_def
        satisfies_def)

text \<open>
  C1, amended. For every derived-key target: when the discriminator bundle is omitted
  altogether, \<open>get\<close>, \<open>set\<close> and \<open>del\<close> throw a \<open>TypeError\<close>; when the bundle is given but
  lacks a required field, they throw unless the target's own key function tolerates the
  absence of that field. The constructor makes no check of its own, so only such a
  tolerant key function lets a descriptor through.
\<close>

theorem missing_discriminator_failure:
  assumes "T \<in> set derived_targets"
    and "k = None
       \<or> (\<exists>d f. k = Some d \<and> f \<in> set (reads T) \<and> \<not> present f d \<and> rejects_missing c T f)"
  shows "isl (DBOp_get c (DBTarget_value T) k)
       \<and> isl (DBOp_set c compressBytes (DBTarget_value T) v k)
       \<and> isl (DBOp_del c (DBTarget_value T) k)
       \<and> (k = None \<longrightarrow> DBOp_get c (DBTarget_value T) k = Inl TypeError
            \<and> DBOp_set c compressBytes (DBTarget_value T) v k = Inl TypeError
            \<and> DBOp_del c (DBTarget_value T) k = Inl TypeError)"
proof -
  from assms have "isl (DBOp_new c (DBTarget_value T) k)"
    by (auto simp: DBOp_new_no_bundle DBOp_new_missing_field)
  then obtain e where e: "DBOp_new c (DBTarget_value T) k = Inl e"
    by (cases "DBOp_new c (DBTarget_value T) k") simp_all
  have "e = TypeError" if "k = None"
    using e that assms(1) by (simp add: DBOp_new_no_bundle)
  with entry_points_Inl(1) [OF e] entry_points_Inl(2) [OF e, of compressBytes v]
    entry_points_Inl(3) [OF e]
  show ?thesis by auto
qed

text \<open>
  C1, amended, at the constants of the counterexample, whose \<open>bloomBitsKey\<close> tolerates an
  absent bit index and nothing else: \<open>BloomBits\<close> without the section number fails,
  \<open>Header\<close> without the block hash fails, and any derived-key target without a bundle
  fails with a \<open>TypeError\<close>.
\<close>

theorem missing_discriminator_failure_witness:
  "BloomBits \<in> set derived_targets \<and> Section \<in> set (reads BloomBits)
   \<and> \<not> present Section (no_fields\<lparr>bit_d := Some 3, hash := Some [0xAB]\<rparr>)
   \<and> rejects_missing unchecked_constants BloomBits Section
   \<and> isl (DBOp_get unchecked_constants (DBTarget_value BloomBits)
          (Some (no_fields\<lparr>bit_d := Some 3, hash := Some [0xAB]\<rparr>)))
   \<and> isl (DBOp_set unchecked_constants sample_compress (DBTarget_value BloomBits)
          (BufferValue [1]) (Some (no_fields\<lparr>bit_d := Some 3, hash := Some [0xAB]\<rparr>)))
   \<and> Header \<in> set derived_targets \<and> BlockHash \<in> set (reads Header)
   \<and> \<not> present BlockHash (no_fields\<lparr>blockNumber := Some 42\<rparr>)
   \<and> rejects_missing unchecked_constants Header BlockHash
   \<and> isl (DBOp_del unchecked_constants (DBTarget_value Header)
          (Some (no_fields\<lparr>blockNumber := Some 42\<rparr>)))
   \<and> DBOp_set unchecked_constants sample_compress (DBTarget_value TotalDifficulty)
          (BufferValue [1]) None = Inl TypeError"
proof -
  let ?b = "no_fields\<lparr>bit_d := Some 3, hash := Some [0xAB]\<rparr>"
  let ?h = "no_fields\<lparr>blockNumber := Some 42\<rparr>"
  have tb: "BloomBits \<in> set derived_targets" and th: "Header \<in> set derived_targets"
    and tt: "TotalDifficulty \<in> set derived_targets"
    by (simp_all add: derived_targets_def)
  have fb: "Section \<in> set (reads BloomBits)" and fh: "BlockHash \<in> set (reads Header)"
    by simp_all
  have mb: "\<not> present Section ?b" and mh: "\<not> present BlockHash ?h"
    by (simp_all add: no_fields_def)
  have rb: "rejects_missing unchecked_constants BloomBits Section"
    using unchecked_rejects_missing [OF tb fb] by simp
  have rh: "rejects_missing unchecked_constants Header BlockHash"
    using unchecked_rejects_missing [OF th fh] by simp
  have hb: "Some ?b = None
      \<or> (\<exists>d f. Some ?b = Some d \<and> f \<in> set (reads BloomBits) \<and> \<not> present f d
             \<and> rejects_missing unchecked_constants BloomBits f)"
    using fb mb rb by blast
  have hh: "Some ?h = None
      \<or> (\<exists>d f. Some ?h = Some d \<and> f \<in> set (reads Header) \<and> \<not> present f d
             \<and> rejects_missing unchecked_constants Header f)"
    using fh mh rh by blast
  have hn: "(None :: DatabaseKey option) = None
      \<or> (\<exists>d f. None = Some d \<and> f \<in> set (reads TotalDifficulty) \<and> \<not> present f d
             \<and> rejects_missing unchecked_constants TotalDifficulty f)"
    by simp
  from missing_discriminator_failure [OF tb hb, of sample_compress "BufferValue [1]"]
    missing_discriminator_failure [OF th hh]
    missing_discriminator_failure [OF tt hn, of sample_compress "BufferValue [1]"]
    tb th fb fh mb mh rb rh
  show ?thesis by blast
qed

text \<open>
  C2. Key derivation is deterministic: any two descriptors constructed for the same target
  and the same discriminator bundle, by whichever of \<open>get\<close>, \<open>set\<close> and \<open>del\<close> and with
  whatever values, have the same key, the same key and value encodings and the same cache
  bucket. The constructor reads nothing but its arguments and the imports of
  \<open>./constants\<close>.
\<close>

theorem key_derivation_deterministic:
  assumes "DBOp_get c t k = Inr a \<or> DBOp_set c compressBytes t v k = Inr a
         \<or> DBOp_del c t k = Inr a"
    and "DBOp_get c t k = Inr b \<or> DBOp_set c compressBytes t v' k = Inr b
         \<or> DBOp_del c t k = Inr b"
  shows "key (baseDBOp a) = key (baseDBOp b)
       \<and> keyEncoding (baseDBOp a) = keyEncoding (baseDBOp b)
       \<and> valueEncoding (baseDBOp a) = valueEncoding (baseDBOp b)
       \<and> cacheString a = cacheString b"
proof -
  have *: "key (baseDBOp x) = key (baseDBOp n) \<and> keyEncoding (baseDBOp x) = keyEncoding (baseDBOp n)
       \<and> valueEncoding (baseDBOp x) = valueEncoding (baseDBOp n) \<and> cacheString x = cacheString n"
    if "DBOp_new c t k = Inr n"
      and "DBOp_get c t k = Inr x \<or> DBOp_set c compressBytes t u k = Inr x
         \<or> DBOp_del c t k = Inr x" for x u n
    using that by (auto simp: DBOp_get_Inr DBOp_set_Inr DBOp_del_Inr)
  from assms(1) obtain n where n: "DBOp_new c t k = Inr n"
    by (auto simp: DBOp_get_Inr DBOp_set_Inr DBOp_del_Inr)
  from * [OF n assms(1)] * [OF n assms(2)] show ?thesis by simp
qed

theorem key_derivation_deterministic_witness:
  "\<exists>a b.
      DBOp_get sample_constants (DBTarget_value TotalDifficulty) (Some sample_key) = Inr a
    \<and> DBOp_set sample_constants sample_compress (DBTarget_value TotalDifficulty)
        (BufferValue [0x01, 0x00]) (Some sample_key) = Inr b
    \<and> key (baseDBOp a) = KeyBuffer [0x68, 0, 0, 0, 0, 0, 0, 0, 42, 0xAB, 0xCD, 0x74]
    \<and> key (baseDBOp a) = key (baseDBOp b)
    \<and> keyEncoding (baseDBOp a) = keyEncoding (baseDBOp b)
    \<and> valueEncoding (baseDBOp a) = valueEncoding (baseDBOp b)
    \<and> cacheString a = cacheString b"
proof -
  let ?a = "\<lparr>operationTarget = 5,
         baseDBOp = \<lparr>type = None,
           key = KeyBuffer [0x68, 0, 0, 0, 0, 0, 0, 0, 42, 0xAB, 0xCD, 0x74],
           keyEncoding = ''binary'', valueEncoding = Some ''binary'', value = None\<rparr>,
         cacheString = Some ''td''\<rparr>"
  have g: "DBOp_get sample_constants (DBTarget_value TotalDifficulty) (Some sample_key) = Inr ?a"
    by (simp add: run_simps sample_constants_def sample_key_def bufBE8_def)
  obtain b where s: "DBOp_set sample_constants sample_compress (DBTarget_value TotalDifficulty)
        (BufferValue [0x01, 0x00]) (Some sample_key) = Inr b"
    by (simp add: run_simps sample_constants_def sample_key_def bufBE8_def)
  have ka: "key (baseDBOp ?a) = KeyBuffer [0x68, 0, 0, 0, 0, 0, 0, 0, 42, 0xAB, 0xCD, 0x74]"
    by simp
  from key_derivation_deterministic [OF disjI1, OF g, OF disjI2, OF disjI1, OF s] g s ka
  show ?thesis by blast
qed

text \<open>
  C3. With discriminators for which construction succeeds, \<open>set\<close> on \<open>BloomBits\<close> stores
  \<open>compressBytes\<close> of the caller's value on the descriptor (and throws what
  \<open>compressBytes\<close> throws); on every other target it stores the caller's value unchanged.
\<close>

theorem set_value:
  assumes "DBOp_get c t k = Inr r"
  shows "(t = DBTarget_value BloomBits \<longrightarrow>
            (case compressBytes v of
               Inr z \<Rightarrow> \<exists>op. DBOp_set c compressBytes t v k = Inr op
                          \<and> value (baseDBOp op) = Some z
             | Inl e \<Rightarrow> DBOp_set c compressBytes t v k = Inl e))
       \<and> (t \<noteq> DBTarget_value BloomBits \<longrightarrow>
            (\<exists>op. DBOp_set c compressBytes t v k = Inr op \<and> value (baseDBOp op) = Some v))"
proof -
  from assms have n: "DBOp_new c t k = Inr r" by (simp add: DBOp_get_def)
  have "DBOp_set c compressBytes t v k =
      (if t = DBTarget_value BloomBits
       then and_then (compressBytes v) (\<lambda>z.
              Inr (r\<lparr>baseDBOp := (baseDBOp r)\<lparr>type := Some ''put'', value := Some z\<rparr>\<rparr>))
       else Inr (r\<lparr>baseDBOp := (baseDBOp r)\<lparr>type := Some ''put'', value := Some v\<rparr>\<rparr>))"
    unfolding DBOp_set_def n and_then_Inr_apply Let_def by simp
  then show ?thesis
    by (cases "compressBytes v") (auto simp: and_then_def)
qed

theorem set_value_witness:
  "DBOp_get sample_constants (DBTarget_value BloomBits)
       (Some (no_fields\<lparr>bit_d := Some 3, section := Some 7, hash := Some [0xAB]\<rparr>))
     = Inr \<lparr>operationTarget = 102,
         baseDBOp = \<lparr>type = None,
           key = KeyBuffer [0x42, 0, 3, 0, 0, 0, 0, 0, 0, 0, 7, 0xAB],
           keyEncoding = ''binary'', valueEncoding = Some ''binary'', value = None\<rparr>,
         cacheString = None\<rparr>
   \<and> sample_compress (BufferValue [1, 2, 0]) = Inr (BufferValue [1, 2])
   \<and> (\<exists>op. DBOp_set sample_constants sample_compress (DBTarget_value BloomBits)
         (BufferValue [1, 2, 0])
         (Some (no_fields\<lparr>bit_d := Some 3, section := Some 7, hash := Some [0xAB]\<rparr>)) = Inr op
        \<and> value (baseDBOp op) = Some (BufferValue [1, 2]))"
proof -
  have g: "DBOp_get sample_constants (DBTarget_value BloomBits)
       (Some (no_fields\<lparr>bit_d := Some 3, section := Some 7, hash := Some [0xAB]\<rparr>))
     = Inr \<lparr>operationTarget = 102,
         baseDBOp = \<lparr>type = None,
           key = KeyBuffer [0x42, 0, 3, 0, 0, 0, 0, 0, 0, 0, 7, 0xAB],
           keyEncoding = ''binary'', valueEncoding = Some ''binary'', value = None\<rparr>,
         cacheString = None\<rparr>"
    by (simp add: run_simps sample_constants_def bufBE8_def int16BE_def)
  have z: "sample_compress (BufferValue [1, 2, 0]) = Inr (BufferValue [1, 2])" by simp
  from set_value [OF g, of sample_compress "BufferValue [1, 2, 0]"] g z
  show ?thesis by simp
qed

text \<open>
  C8. Every constructed descriptor for target \<open>Heads\<close> has value encoding \<open>json\<close>; for
  \<open>BloomBitsSectionCount\<close> key and value encoding are both \<open>none\<close>, and it is the only
  target whose key encoding is not \<open>binary\<close>; every other target has key encoding
  \<open>binary\<close> and value encoding \<open>binary\<close>. This holds for \<open>get\<close>, \<open>set\<close> and \<open>del\<close>.
\<close>

theorem descriptor_encodings:
  assumes "DBOp_get c (DBTarget_value T) k = Inr op
         \<or> DBOp_set c compressBytes (DBTarget_value T) v k = Inr op
         \<or> DBOp_del c (DBTarget_value T) k = Inr op"
  shows "(T = Heads \<longrightarrow> keyEncoding (baseDBOp op) = ''binary''
            \<and> valueEncoding (baseDBOp op) = Some ''json'')
       \<and> (T = BloomBitsSectionCount \<longrightarrow> keyEncoding (baseDBOp op) = ''none''
            \<and> valueEncoding (baseDBOp op) = Some ''none'')
       \<and> (keyEncoding (baseDBOp op) \<noteq> ''binary'' \<longrightarrow> T = BloomBitsSectionCount)
       \<and> (T \<noteq> Heads \<and> T \<noteq> BloomBitsSectionCount \<longrightarrow> keyEncoding (baseDBOp op) = ''binary''
            \<and> valueEncoding (baseDBOp op) = Some ''binary'')"
proof -
  from assms obtain n where new: "switch_case c T k (DBOp_fresh (DBTarget_value T)) = Inr n"
    and enc: "keyEncoding (baseDBOp op) = keyEncoding (baseDBOp n)"
             "valueEncoding (baseDBOp op) = valueEncoding (baseDBOp n)"
    by (auto simp: DBOp_get_Inr DBOp_del_Inr DBOp_set_Inr DBOp_new_value)
  show ?thesis
    unfolding enc switch_case_encodings [OF new] by simp
qed

theorem descriptor_encodings_witness:
  "DBOp_set sample_constants sample_compress (DBTarget_value Heads)
       (ObjectValue [(''head'', ''0xab'')]) None
     = Inr \<lparr>operationTarget = 0,
         baseDBOp = \<lparr>type = Some ''put'', key = KeyString ''heads'', keyEncoding = ''binary'',
           valueEncoding = Some ''json'', value = Some (ObjectValue [(''head'', ''0xab'')])\<rparr>,
         cacheString = None\<rparr>
   \<and> keyEncoding (baseDBOp \<lparr>operationTarget = 0,
         baseDBOp = \<lparr>type = Some ''put'', key = KeyString ''heads'', keyEncoding = ''binary'',
           valueEncoding = Some ''json'', value = Some (ObjectValue [(''head'', ''0xab'')])\<rparr>,
         cacheString = None\<rparr>) = ''binary''
   \<and> valueEncoding (baseDBOp \<lparr>operationTarget = 0,
         baseDBOp = \<lparr>type = Some ''put'', key = KeyString ''heads'', keyEncoding = ''binary'',
           valueEncoding = Some ''json'', value = Some (ObjectValue [(''head'', ''0xab'')])\<rparr>,
         cacheString = None\<rparr>) = Some ''json''"
proof -
  have s: "DBOp_set sample_constants sample_compress (DBTarget_value Heads)
       (ObjectValue [(''head'', ''0xab'')]) None
     = Inr \<lparr>operationTarget = 0,
         baseDBOp = \<lparr>type = Some ''put'', key = KeyString ''heads'', keyEncoding = ''binary'',
           valueEncoding = Some ''json'', value = Some (ObjectValue [(''head'', ''0xab'')])\<rparr>,
         cacheString = None\<rparr>"
    by (simp add: run_simps sample_constants_def)
  from descriptor_encodings [of sample_constants Heads None _ sample_compress
      "ObjectValue [(''head'', ''0xab'')]", OF disjI2, OF disjI1, OF s] s
  show ?thesis by simp
qed

text \<open>
  C9. For every fixed-key target and every discriminator bundle passed, none included,
  the key of the descriptor built by \<open>get\<close>, \<open>set\<close> or \<open>del\<close> is the constant of
  \<open>./constants\<close> that the target is bound to; construction cannot fail, and the bundle
  has no influence.
\<close>

theorem fixed_key_stability:
  assumes "T \<in> set fixed_targets"
  shows "(\<exists>op. DBOp_get c (DBTarget_value T) k = Inr op \<and> key (baseDBOp op) = fixed_key c T)
       \<and> (\<exists>op. DBOp_set c compressBytes (DBTarget_value T) v k = Inr op
              \<and> key (baseDBOp op) = fixed_key c T)
       \<and> (\<exists>op. DBOp_del c (DBTarget_value T) k = Inr op \<and> key (baseDBOp op) = fixed_key c T)"
proof -
  have new: "\<exists>n. DBOp_new c (DBTarget_value T) k = Inr n \<and> key (baseDBOp n) = fixed_key c T"
    using assms unfolding DBOp_new_value fixed_targets_def
    by (auto simp: assign_key_def DBOp_fresh_def)
  have nb: "DBTarget_value T \<noteq> DBTarget_value BloomBits"
    using assms unfolding fixed_targets_def by auto
  from new obtain n where n: "DBOp_new c (DBTarget_value T) k = Inr n"
    and kn: "key (baseDBOp n) = fixed_key c T" by blast
  have "DBOp_get c (DBTarget_value T) k = Inr n"
    by (simp add: DBOp_get_Inr n)
  moreover have "DBOp_set c compressBytes (DBTarget_value T) v k =
      Inr (n\<lparr>baseDBOp := (baseDBOp n)\<lparr>type := Some ''put'', value := Some v\<rparr>\<rparr>)"
    unfolding DBOp_set_Inr using n nb by auto
  moreover have "DBOp_del c (DBTarget_value T) k =
      Inr (n\<lparr>baseDBOp := (baseDBOp n)\<lparr>type := Some ''del''\<rparr>\<rparr>)"
    unfolding DBOp_del_Inr using n by auto
  ultimately show ?thesis using kn by simp
qed

theorem fixed_key_stability_witness:
  "HeadHeader \<in> set fixed_targets
   \<and> (\<exists>op. DBOp_get sample_constants (DBTarget_value HeadHeader)
               (Some (no_fields\<lparr>blockNumber := Some 42\<rparr>)) = Inr op
          \<and> key (baseDBOp op) = KeyString ''LastHeader'')
   \<and> (\<exists>op. DBOp_del sample_constants (DBTarget_value HeadHeader) None = Inr op
          \<and> key (baseDBOp op) = KeyString ''LastHeader'')"
proof -
  have h: "HeadHeader \<in> set fixed_targets" by (simp add: fixed_targets_def)
  have k: "fixed_key sample_constants HeadHeader = KeyString ''LastHeader''"
    by (simp add: sample_constants_def)
  from fixed_key_stability [OF h, of sample_constants "Some (no_fields\<lparr>blockNumber := Some 42\<rparr>)"]
    fixed_key_stability [OF h, of sample_constants None] h
  show ?thesis unfolding k by blast
qed

text \<open>
  C10. A target number outside the enumeration matches no \<open>case\<close> of the \<open>switch\<close>, which
  has no \<open>default\<close>: construction by \<open>get\<close>, \<open>set\<close> or \<open>del\<close> does not fail and returns a
  descriptor with the empty string as key, key and value encoding \<open>binary\<close> and no cache
  bucket.
\<close>

theorem target_outside_enumeration:
  assumes "\<forall>T. t \<noteq> DBTarget_value T"
  shows "DBOp_get c t k =
           Inr \<lparr>operationTarget = t,
                baseDBOp = \<lparr>type = None, key = KeyString [], keyEncoding = ''binary'',
                            valueEncoding = Some ''binary'', value = None\<rparr>,
                cacheString = None\<rparr>
       \<and> DBOp_set c compressBytes t v k =
           Inr \<lparr>operationTarget = t,
                baseDBOp = \<lparr>type = Some ''put'', key = KeyString [], keyEncoding = ''binary'',
                            valueEncoding = Some ''binary'', value = Some v\<rparr>,
                cacheString = None\<rparr>
       \<and> DBOp_del c t k =
           Inr \<lparr>operationTarget = t,
                baseDBOp = \<lparr>type = Some ''del'', key = KeyString [], keyEncoding = ''binary'',
                            valueEncoding = Some ''binary'', value = None\<rparr>,
                cacheString = None\<rparr>"
proof -
  have new: "DBOp_new c t k = Inr (DBOp_fresh t)"
    using assms by (simp add: DBOp_new_def switch_label_None)
  have nb: "t \<noteq> DBTarget_value BloomBits" using assms by blast
  have g: "DBOp_get c t k = Inr (DBOp_fresh t)"
    by (simp add: DBOp_get_def new)
  have d: "DBOp_del c t k =
      Inr ((DBOp_fresh t)\<lparr>baseDBOp := (baseDBOp (DBOp_fresh t))\<lparr>type := Some ''del''\<rparr>\<rparr>)"
    by (simp add: DBOp_del_def new and_then_def)
  have s: "DBOp_set c compressBytes t v k =
      Inr ((DBOp_fresh t)\<lparr>baseDBOp := (baseDBOp (DBOp_fresh t))\<lparr>type := Some ''put'',
             value := Some v\<rparr>\<rparr>)"
    unfolding DBOp_set_Inr using new nb by auto
  show ?thesis
    unfolding g d s by (simp add: DBOp_fresh_def)
qed

theorem target_outside_enumeration_witness:
  "(\<forall>T. (50::int) \<noteq> DBTarget_value T)
   \<and> DBOp_get sample_constants 50 None =
        Inr \<lparr>operationTarget = 50,
             baseDBOp = \<lparr>type = None, key = KeyString [], keyEncoding = ''binary'',
                         valueEncoding = Some ''binary'', value = None\<rparr>,
             cacheString = None\<rparr>"
proof -
  have h: "\<forall>T. (50::int) \<noteq> DBTarget_value T"
  proof
    fix T show "(50::int) \<noteq> DBTarget_value T"
      using DBTarget_value_range [of T] by auto
  qed
  from target_outside_enumeration [OF h, of sample_constants None] h
  show ?thesis by blast
qed

subsection \<open>Keeping the cache in step\<close>



text \<open>
  C5, as stated, does not hold: \<open>updateCache\<close> reaches its \<open>throw\<close> only inside the guard
  \<open>this.cacheString && cacheMap[this.cacheString]\<close>. A descriptor built by \<open>get\<close> for
  \<open>Heads\<close> has no \<open>cacheString\<close>, and the call returns normally.
\<close>

theorem read_descriptor_no_error:
  "DBOp_get sample_constants (DBTarget_value Heads) None
     = Inr \<lparr>operationTarget = 0,
         baseDBOp = \<lparr>type = None, key = KeyString ''heads'', keyEncoding = ''binary'',
           valueEncoding = Some ''json'', value = None\<rparr>,
         cacheString = None\<rparr>
   \<and> updateCache \<lparr>operationTarget = 0,
         baseDBOp = \<lparr>type = None, key = KeyString ''heads'', keyEncoding = ''binary'',
           valueEncoding = Some ''json'', value = None\<rparr>,
         cacheString = None\<rparr> sample_cache = (Inr (), sample_cache)"
  by (simp add: run_simps sample_constants_def updateCache_def)

text \<open>
  C5, amended. For a descriptor built by \<open>get\<close>, or any descriptor whose \<open>type\<close> is neither
  \<open>put\<close> nor \<open>del\<close>, \<open>updateCache\<close> throws \<open>Error('unsupported db operation on cache')\<close>
  exactly when the descriptor names a cache bucket that the container has; otherwise it
  returns normally. In both cases the container is unchanged.
\<close>

theorem read_descriptor_unsupported:
  assumes "DBOp_get c t k = Inr op
         \<or> (type (baseDBOp op) \<noteq> Some ''put'' \<and> type (baseDBOp op) \<noteq> Some ''del'')"
  shows "updateCache op cacheMap =
           (if \<exists>B cache. cacheString op = Some B \<and> B \<noteq> [] \<and> cacheMap B = Some cache
            then (Inl (Error ''unsupported db operation on cache''), cacheMap)
            else (Inr (), cacheMap))"
proof -
  from assms have ty: "type (baseDBOp op) \<noteq> Some ''put'' \<and> type (baseDBOp op) \<noteq> Some ''del''"
    by (auto simp: DBOp_get_Inr dest: DBOp_new_frame(1))
  then show ?thesis
    by (auto simp: updateCache_def split: option.splits)
qed

theorem read_descriptor_unsupported_witness:
  "DBOp_get sample_constants (DBTarget_value Header) (Some sample_key)
     = Inr \<lparr>operationTarget = 7,
         baseDBOp = \<lparr>type = None,
           key = KeyBuffer [0x68, 0, 0, 0, 0, 0, 0, 0, 42, 0xAB, 0xCD],
           keyEncoding = ''binary'', valueEncoding = Some ''binary'', value = None\<rparr>,
         cacheString = Some ''header''\<rparr>
   \<and> updateCache \<lparr>operationTarget = 7,
         baseDBOp = \<lparr>type = None,
           key = KeyBuffer [0x68, 0, 0, 0, 0, 0, 0, 0, 42, 0xAB, 0xCD],
           keyEncoding = ''binary'', valueEncoding = Some ''binary'', value = None\<rparr>,
         cacheString = Some ''header''\<rparr> sample_cache
       = (Inl (Error ''unsupported db operation on cache''), sample_cache)
   \<and> updateCache \<lparr>operationTarget = 7,
         baseDBOp = \<lparr>type = None,
           key = KeyBuffer [0x68, 0, 0, 0, 0, 0, 0, 0, 42, 0xAB, 0xCD],
           keyEncoding = ''binary'', valueEncoding = Some ''binary'', value = None\<rparr>,
         cacheString = Some ''header''\<rparr> Map.empty
       = (Inr (), Map.empty)"
proof -
  have g: "DBOp_get sample_constants (DBTarget_value Header) (Some sample_key)
     = Inr \<lparr>operationTarget = 7,
         baseDBOp = \<lparr>type = None,
           key = KeyBuffer [0x68, 0, 0, 0, 0, 0, 0, 0, 42, 0xAB, 0xCD],
           keyEncoding = ''binary'', valueEncoding = Some ''binary'', value = None\<rparr>,
         cacheString = Some ''header''\<rparr>"
    by (simp add: run_simps sample_constants_def sample_key_def bufBE8_def)
  have b: "sample_cache ''header'' = Some [KeyBuffer [1] \<mapsto> [2]]"
    by (simp add: sample_cache_def)
  from read_descriptor_unsupported [OF disjI1, OF g, of sample_cache]
    read_descriptor_unsupported [OF disjI1, OF g, of Map.empty] g b
  show ?thesis by simp
qed

text \<open>
  C6. A write descriptor whose value is not a raw byte buffer leaves the cache container
  as it is: the call returns normally and no bucket gains, loses or changes an entry.
\<close>

theorem non_buffer_write_keeps_cache:
  assumes "type (baseDBOp op) = Some ''put''" and "\<not> isBuffer (value (baseDBOp op))"
  shows "updateCache op cacheMap = (Inr (), cacheMap)"
proof (cases "value (baseDBOp op)")
  case None
  then show ?thesis by (simp add: updateCache_def assms(1) split: option.splits)
next
  case (Some v)
  with assms(2) show ?thesis
    by (cases v) (simp_all add: updateCache_def assms(1) split: option.splits)
qed

theorem non_buffer_write_keeps_cache_witness:
  "DBOp_set sample_constants sample_compress (DBTarget_value Header) (StringValue ''rlp'')
       (Some sample_key)
     = Inr \<lparr>operationTarget = 7,
         baseDBOp = \<lparr>type = Some ''put'',
           key = KeyBuffer [0x68, 0, 0, 0, 0, 0, 0, 0, 42, 0xAB, 0xCD],
           keyEncoding = ''binary'', valueEncoding = Some ''binary'',
           value = Some (StringValue ''rlp'')\<rparr>,
         cacheString = Some ''header''\<rparr>
   \<and> sample_cache ''header'' \<noteq> None
   \<and> updateCache \<lparr>operationTarget = 7,
         baseDBOp = \<lparr>type = Some ''put'',
           key = KeyBuffer [0x68, 0, 0, 0, 0, 0, 0, 0, 42, 0xAB, 0xCD],
           keyEncoding = ''binary'', valueEncoding = Some ''binary'',
           value = Some (StringValue ''rlp'')\<rparr>,
         cacheString = Some ''header''\<rparr> sample_cache = (Inr (), sample_cache)"
proof -
  have s: "DBOp_set sample_constants sample_compress (DBTarget_value Header) (StringValue ''rlp'')
       (Some sample_key)
     = Inr \<lparr>operationTarget = 7,
         baseDBOp = \<lparr>type = Some ''put'',
           key = KeyBuffer [0x68, 0, 0, 0, 0, 0, 0, 0, 42, 0xAB, 0xCD],
           keyEncoding = ''binary'', valueEncoding = Some ''binary'',
           value = Some (StringValue ''rlp'')\<rparr>,
         cacheString = Some ''header''\<rparr>"
    by (simp add: run_simps sample_constants_def sample_key_def bufBE8_def)
  have b: "sample_cache ''header'' \<noteq> None" by (simp add: sample_cache_def)
  have u: "updateCache \<lparr>operationTarget = 7,
         baseDBOp = \<lparr>type = Some ''put'',
           key = KeyBuffer [0x68, 0, 0, 0, 0, 0, 0, 0, 42, 0xAB, 0xCD],
           keyEncoding = ''binary'', valueEncoding = Some ''binary'',
           value = Some (StringValue ''rlp'')\<rparr>,
         cacheString = Some ''header''\<rparr> sample_cache = (Inr (), sample_cache)"
    by (rule non_buffer_write_keeps_cache) simp_all
  from s b u show ?thesis by blast
qed

text \<open>
  C7. \<open>updateCache\<close> changes at most the bucket that the descriptor's \<open>cacheString\<close>
  names. When the descriptor has no \<open>cacheString\<close>, or the container has no bucket of that
  name, the call returns normally with the container unchanged, whatever the operation
  kind. Descriptors for \<open>BloomBits\<close> and for the fixed-key targets have no \<open>cacheString\<close>,
  so for them the call is always such a no-op.
\<close>

theorem updateCache_frame:
  "(\<forall>B. cacheString op \<noteq> Some B \<longrightarrow> snd (updateCache op cacheMap) B = cacheMap B)
   \<and> (cacheString op = None \<or> (\<exists>B. cacheString op = Some B \<and> cacheMap B = None)
        \<longrightarrow> updateCache op cacheMap = (Inr (), cacheMap))
   \<and> ((T = BloomBits \<or> T \<in> set fixed_targets)
        \<and> (DBOp_get c (DBTarget_value T) k = Inr built
           \<or> DBOp_set c compressBytes (DBTarget_value T) v k = Inr built
           \<or> DBOp_del c (DBTarget_value T) k = Inr built)
        \<longrightarrow> updateCache built cacheMap = (Inr (), cacheMap))"
proof (intro conjI allI impI)
  fix B assume "cacheString op \<noteq> Some B"
  then show "snd (updateCache op cacheMap) B = cacheMap B"
    by (auto simp: updateCache_def split: option.splits dbvalue.splits)
next
  assume "cacheString op = None \<or> (\<exists>B. cacheString op = Some B \<and> cacheMap B = None)"
  then show "updateCache op cacheMap = (Inr (), cacheMap)"
    by (auto simp: updateCache_def)
next
  assume a: "(T = BloomBits \<or> T \<in> set fixed_targets)
        \<and> (DBOp_get c (DBTarget_value T) k = Inr built
           \<or> DBOp_set c compressBytes (DBTarget_value T) v k = Inr built
           \<or> DBOp_del c (DBTarget_value T) k = Inr built)"
  then have "DBOp_get c (DBTarget_value T) k = Inr built
           \<or> DBOp_set c compressBytes (DBTarget_value T) v k = Inr built
           \<or> DBOp_del c (DBTarget_value T) k = Inr built" by simp
  then obtain n where "DBOp_new c (DBTarget_value T) k = Inr n"
    and "cacheString built = cacheString n"
    by (rule DBOp_built_cacheString)
  with a DBOp_new_no_bucket [of c T k n] have "cacheString built = None" by simp
  then show "updateCache built cacheMap = (Inr (), cacheMap)"
    by (simp add: updateCache_def)
qed

theorem updateCache_frame_witness:
  "DBOp_set sample_constants sample_compress (DBTarget_value BloomBits) (BufferValue [1, 2, 0])
       (Some (no_fields\<lparr>bit_d := Some 3, section := Some 7, hash := Some [0xAB]\<rparr>))
     = Inr \<lparr>operationTarget = 102,
         baseDBOp = \<lparr>type = Some ''put'',
           key = KeyBuffer [0x42, 0, 3, 0, 0, 0, 0, 0, 0, 0, 7, 0xAB],
           keyEncoding = ''binary'', valueEncoding = Some ''binary'',
           value = Some (BufferValue [1, 2])\<rparr>,
         cacheString = None\<rparr>
   \<and> updateCache \<lparr>operationTarget = 102,
         baseDBOp = \<lparr>type = Some ''put'',
           key = KeyBuffer [0x42, 0, 3, 0, 0, 0, 0, 0, 0, 0, 7, 0xAB],
           keyEncoding = ''binary'', valueEncoding = Some ''binary'',
           value = Some (BufferValue [1, 2])\<rparr>,
         cacheString = None\<rparr> sample_cache = (Inr (), sample_cache)
   \<and> DBOp_del sample_constants (DBTarget_value Body) (Some sample_key)
     = Inr \<lparr>operationTarget = 6,
         baseDBOp = \<lparr>type = Some ''del'',
           key = KeyBuffer [0x62, 0, 0, 0, 0, 0, 0, 0, 42, 0xAB, 0xCD],
           keyEncoding = ''binary'', valueEncoding = Some ''binary'', value = None\<rparr>,
         cacheString = Some ''body''\<rparr>
   \<and> sample_cache ''body'' = None
   \<and> updateCache \<lparr>operationTarget = 6,
         baseDBOp = \<lparr>type = Some ''del'',
           key = KeyBuffer [0x62, 0, 0, 0, 0, 0, 0, 0, 42, 0xAB, 0xCD],
           keyEncoding = ''binary'', valueEncoding = Some ''binary'', value = None\<rparr>,
         cacheString = Some ''body''\<rparr> sample_cache = (Inr (), sample_cache)
   \<and> snd (updateCache \<lparr>operationTarget = 7,
         baseDBOp = \<lparr>type = Some ''del'', key = KeyBuffer [1],
           keyEncoding = ''binary'', valueEncoding = Some ''binary'', value = None\<rparr>,
         cacheString = Some ''header''\<rparr> sample_cache) ''numberToHash''
       = sample_cache ''numberToHash''"
proof -
  let ?body = "\<lparr>operationTarget = 6,
         baseDBOp = \<lparr>type = Some ''del'',
           key = KeyBuffer [0x62, 0, 0, 0, 0, 0, 0, 0, 42, 0xAB, 0xCD],
           keyEncoding = ''binary'', valueEncoding = Some ''binary'', value = None\<rparr>,
         cacheString = Some ''body''\<rparr>"
  let ?header = "\<lparr>operationTarget = 7,
         baseDBOp = \<lparr>type = Some ''del'', key = KeyBuffer [1],
           keyEncoding = ''binary'', valueEncoding = Some ''binary'', value = None\<rparr>,
         cacheString = Some ''header''\<rparr>"
  have s: "DBOp_set sample_constants sample_compress (DBTarget_value BloomBits)
       (BufferValue [1, 2, 0])
       (Some (no_fields\<lparr>bit_d := Some 3, section := Some 7, hash := Some [0xAB]\<rparr>))
     = Inr \<lparr>operationTarget = 102,
         baseDBOp = \<lparr>type = Some ''put'',
           key = KeyBuffer [0x42, 0, 3, 0, 0, 0, 0, 0, 0, 0, 7, 0xAB],
           keyEncoding = ''binary'', valueEncoding = Some ''binary'',
           value = Some (BufferValue [1, 2])\<rparr>,
         cacheString = None\<rparr>"
    by (simp add: run_simps sample_constants_def bufBE8_def int16BE_def)
  have d: "DBOp_del sample_constants (DBTarget_value Body) (Some sample_key) = Inr ?body"
    by (simp add: run_simps sample_constants_def sample_key_def bufBE8_def)
  have nb: "sample_cache ''body'' = None" by (simp add: sample_cache_def)
  have cb: "cacheString ?body = Some ''body''" by simp
  have ch: "cacheString ?header \<noteq> Some ''numberToHash''" by simp
  from updateCache_frame [where T = BloomBits and c = sample_constants
      and k = "Some (no_fields\<lparr>bit_d := Some 3, section := Some 7, hash := Some [0xAB]\<rparr>)"
      and compressBytes = sample_compress and v = "BufferValue [1, 2, 0]"
      and cacheMap = sample_cache] s
  have 1: "updateCache \<lparr>operationTarget = 102,
         baseDBOp = \<lparr>type = Some ''put'',
           key = KeyBuffer [0x42, 0, 3, 0, 0, 0, 0, 0, 0, 0, 7, 0xAB],
           keyEncoding = ''binary'', valueEncoding = Some ''binary'',
           value = Some (BufferValue [1, 2])\<rparr>,
         cacheString = None\<rparr> sample_cache = (Inr (), sample_cache)"
    by blast
  from updateCache_frame [where op = ?body and cacheMap = sample_cache] nb cb
  have 2: "updateCache ?body sample_cache = (Inr (), sample_cache)"
    by blast
  from updateCache_frame [where op = ?header and cacheMap = sample_cache] ch
  have 3: "snd (updateCache ?header sample_cache) ''numberToHash'' = sample_cache ''numberToHash''"
    by blast
  from s d nb 1 2 3 show ?thesis by blast
qed

end
